theory Spec2Isabelle
  imports Main "HOL-Library.Sublist"
begin

section \<open>The two-pass conversion of \<open>video_to_avif.py\<close>\<close>

text \<open>
  The development embeds \<open>convert_video\<close> (lines 53 to 133 of \<open>src/video_to_avif.py\<close>):
  the selection of the encoder parameters from the format and the parameter dictionary,
  the two \<open>ffmpeg\<close> argument lists, and the \<open>try\<close>/\<open>except\<close> block that
  runs them through \<open>subprocess.run\<close>.
\<close>

subsection \<open>Python values\<close>

text \<open>
  \<open>params\<close> is a dictionary from strings to strings (the caller fills it from Tk string
  variables). \<open>params.get(k)\<close> is the stored string, or Python's \<open>None\<close> for a key
  that is absent, so a value read from it is a \<open>string option\<close>, and so is every element
  of an argument list that holds such a value.
\<close>

type_synonym params = "string \<rightharpoonup> string"

type_synonym token = "string option"

text \<open>What an f-string puts for \<open>{v}\<close>: the string itself, or the text \<open>None\<close>.\<close>

fun py_format :: "token \<Rightarrow> string" where
  "py_format None = ''None''"
| "py_format (Some s) = s"

subsection \<open>Common parameters and the encoder configuration (lines 60 to 82)\<close>

definition scale_filter :: "string \<Rightarrow> params \<Rightarrow> token" where
  "scale_filter format_type params =
     (if format_type = ''AVIF'' then params ''scale_filter_avif'' else params ''scale_filter_webp'')"

definition max_width :: "string \<Rightarrow> params \<Rightarrow> token" where
  "max_width format_type params =
     (if format_type = ''AVIF'' then params ''max_width_avif'' else params ''max_width_webp'')"

definition frame_rate :: "string \<Rightarrow> params \<Rightarrow> token" where
  "frame_rate format_type params =
     (if format_type = ''AVIF'' then params ''frame_rate_avif'' else params ''frame_rate_webp'')"

text \<open>The dictionary \<open>encoder_config\<close>; its key \<open>'c:v'\<close> is the field \<open>c_v\<close>.\<close>

record encoder_config =
  c_v :: string
  param1_key :: string
  param1_val :: token
  param2_key :: string
  param2_val :: token
  extra_args :: "token list"

definition encoder_config :: "string \<Rightarrow> params \<Rightarrow> encoder_config" where
  "encoder_config format_type params =
     (if format_type = ''AVIF'' then
        \<lparr> c_v = ''libaom-av1'',
          param1_key = ''-crf'',
          param1_val = params ''crf'',
          param2_key = ''-cpu-used'',
          param2_val = params ''cpu_used'',
          extra_args = [Some ''-b:v'', Some ''0'', Some ''-pix_fmt'', Some ''yuv420p''] \<rparr>
      else
        \<lparr> c_v = ''libwebp'',
          param1_key = ''-quality'',
          param1_val = params ''output_quality_webp'',
          param2_key = ''-compression_level'',
          param2_val = params ''compression_level'',
          extra_args = [Some ''-preset'', params ''preset''] \<rparr>)"

subsection \<open>The two argument lists (lines 85 to 112)\<close>

definition first_pass :: "string \<Rightarrow> string \<Rightarrow> params \<Rightarrow> string \<Rightarrow> token list" where
  "first_pass input_file format_type params ffmpeg_path =
     [Some ffmpeg_path,
      Some ''-i'', Some input_file,
      Some ''-vf'', Some (''scale='' @ py_format (max_width format_type params) @ '':-2:flags=''
                          @ py_format (scale_filter format_type params)),
      Some ''-r'', frame_rate format_type params,
      Some ''-c:v'', Some (c_v (encoder_config format_type params)),
      Some (param1_key (encoder_config format_type params)),
      param1_val (encoder_config format_type params),
      Some (param2_key (encoder_config format_type params)),
      param2_val (encoder_config format_type params)]
     @ extra_args (encoder_config format_type params)
     @ [Some ''-pass'', Some ''1'',
        Some ''-f'', Some ''null'',
        Some ''-'']"

definition second_pass :: "string \<Rightarrow> string \<Rightarrow> string \<Rightarrow> params \<Rightarrow> string \<Rightarrow> token list" where
  "second_pass input_file output_file format_type params ffmpeg_path =
     [Some ffmpeg_path,
      Some ''-i'', Some input_file,
      Some ''-vf'', Some (''scale='' @ py_format (max_width format_type params) @ '':-2:flags=''
                          @ py_format (scale_filter format_type params)),
      Some ''-r'', frame_rate format_type params,
      Some ''-c:v'', Some (c_v (encoder_config format_type params)),
      Some (param1_key (encoder_config format_type params)),
      param1_val (encoder_config format_type params),
      Some (param2_key (encoder_config format_type params)),
      param2_val (encoder_config format_type params)]
     @ extra_args (encoder_config format_type params)
     @ [Some ''-pass'', Some ''2'',
        Some ''-loop'', Some ''0'',
        Some output_file]"

subsection \<open>Processes, dialogs and exceptions\<close>

text \<open>
  The operating system is a parameter. \<open>launch\<close> stands for starting the process of an
  argument list, waiting for it to exit and collecting what it wrote: from a state of the
  world \<open>'w\<close> it gives the next state and either the exit status with the bytes captured
  from standard output and from standard error, or that the executable was not found
  (\<open>FileNotFoundError\<close>), or another exception of class \<open>Exception\<close> with its text
  (\<open>PermissionError\<close>, the \<open>TypeError\<close> for an argument that is \<open>None\<close>, ...).
  \<open>decode\<close> stands for what \<open>text=True\<close> does to captured bytes: the text in the
  encoding of the locale, with newlines translated, or the text of the
  \<open>UnicodeDecodeError\<close> when the bytes are not valid in that encoding.
  Interrupts that the interpreter raises from a signal (\<open>KeyboardInterrupt\<close>) are not
  part of this sequential model. \<open>path_name\<close> stands for \<open>Path(p).name\<close>, which
  depends on the platform's path syntax. \<open>print\<close> and the two dialog functions of
  \<open>tkinter.messagebox\<close> are taken to return normally; they are recorded as events.
\<close>

type_synonym bytes = "char list"

datatype launch_result =
    Exited int bytes bytes
  | NotFound
  | LaunchError string

type_synonym 'w launcher = "'w \<Rightarrow> token list \<Rightarrow> launch_result \<times> 'w"

type_synonym decoder = "bytes \<Rightarrow> string + string"

datatype py_exception =
    CalledProcessError int string
  | FileNotFoundError
  | OtherException string

text \<open>
  What the call leaves behind, in the order it happens: a line printed, a call of the
  process runner with its argument list (whether or not a process could be started), an
  information dialog and an error dialog (title, message).
\<close>

datatype event =
    Print string
  | Run "token list"
  | ShowInfo string string
  | ShowError string string

record 'w state =
  world :: 'w
  trace :: "event list"

definition emit :: "event \<Rightarrow> 'w state \<Rightarrow> 'w state" where
  "emit e s = s\<lparr>trace := trace s @ [e]\<rparr>"

text \<open>
  \<open>subprocess.run(args, check=True, stdout=PIPE, stderr=PIPE, text=True)\<close>. The process
  runs once. After it has exited, the captured standard output is decoded, then the
  captured standard error (\<open>decoded\<close>: the two texts, or the text of the first decoding
  error); a decoding error is raised whatever the exit status was. Only then is the exit
  status looked at: a non-zero status raises \<open>CalledProcessError\<close>, which carries the
  status and the decoded standard error (\<open>run_result\<close>).
\<close>

definition decoded :: "decoder \<Rightarrow> bytes \<Rightarrow> bytes \<Rightarrow> string + string \<times> string" where
  "decoded decode out err =
     (case decode out of
        Inl msg \<Rightarrow> Inl msg
      | Inr out_text \<Rightarrow>
          (case decode err of
             Inl msg \<Rightarrow> Inl msg
           | Inr err_text \<Rightarrow> Inr (out_text, err_text)))"

definition run_result :: "decoder \<Rightarrow> launch_result \<Rightarrow> py_exception + unit" where
  "run_result decode r =
     (case r of
        Exited returncode out err \<Rightarrow>
          (case decoded decode out err of
             Inl msg \<Rightarrow> Inl (OtherException msg)
           | Inr (out_text, err_text) \<Rightarrow>
               if returncode \<noteq> 0 then Inl (CalledProcessError returncode err_text)
               else Inr ())
      | NotFound \<Rightarrow> Inl FileNotFoundError
      | LaunchError msg \<Rightarrow> Inl (OtherException msg))"

definition subprocess_run ::
  "'w launcher \<Rightarrow> decoder \<Rightarrow> token list \<Rightarrow> 'w state \<Rightarrow> (py_exception + unit) \<times> 'w state" where
  "subprocess_run launch decode args s =
     (case launch (world s) args of (r, w') \<Rightarrow>
        (run_result decode r, emit (Run args) (s\<lparr>world := w'\<rparr>)))"

subsection \<open>\<open>convert_video\<close> (lines 114 to 133)\<close>

text \<open>The body of the \<open>try\<close>: it ends with the value returned or with the exception raised.\<close>

definition try_body ::
  "'w launcher \<Rightarrow> decoder \<Rightarrow> (string \<Rightarrow> string) \<Rightarrow> string \<Rightarrow> string \<Rightarrow> token list
     \<Rightarrow> token list \<Rightarrow> 'w state \<Rightarrow> (py_exception + bool) \<times> 'w state" where
  "try_body launch decode path_name input_file output_file first second s =
     (case subprocess_run launch decode first
             (emit (Print (''Starting first pass for '' @ input_file @ ''...'')) s) of
        (Inl e, s1) \<Rightarrow> (Inl e, s1)
      | (Inr _, s1) \<Rightarrow>
          (case subprocess_run launch decode second
                  (emit (Print (''Starting second pass for '' @ input_file @ ''...'')) s1) of
             (Inl e, s2) \<Rightarrow> (Inl e, s2)
           | (Inr _, s2) \<Rightarrow>
               (Inr True,
                emit (ShowInfo ''Success''
                        (''Successfully converted '' @ path_name input_file @ '' to ''
                         @ path_name output_file)) s2)))"

text \<open>
  The \<open>except\<close> clauses, in the order of the source. The result is the value returned, or
  the exception that leaves the function when no clause takes it.
\<close>

definition convert_video ::
  "'w launcher \<Rightarrow> decoder \<Rightarrow> (string \<Rightarrow> string) \<Rightarrow> string \<Rightarrow> string \<Rightarrow> string \<Rightarrow> params
     \<Rightarrow> string \<Rightarrow> 'w state \<Rightarrow> (py_exception + bool) \<times> 'w state" where
  "convert_video launch decode path_name input_file output_file format_type params ffmpeg_path s =
     (case try_body launch decode path_name input_file output_file
             (first_pass input_file format_type params ffmpeg_path)
             (second_pass input_file output_file format_type params ffmpeg_path) s of
        (Inr v, s') \<Rightarrow> (Inr v, s')
      | (Inl (CalledProcessError returncode err), s') \<Rightarrow>
          (Inr False,
           emit (ShowError ''Conversion Error''
                   (''Error converting '' @ path_name input_file @ '': '' @ err)) s')
      | (Inl FileNotFoundError, s') \<Rightarrow>
          (Inr False,
           emit (ShowError ''Error''
                   (''Error: ffmpeg not found at '' @ ffmpeg_path
                    @ ''. Please ensure the path is correct.'')) s')
      | (Inl (OtherException msg), s') \<Rightarrow>
          (Inr False,
           emit (ShowError ''Unknown Error'' (''An unexpected error occurred: '' @ msg)) s'))"

subsection \<open>Reading a run\<close>

text \<open>The argument lists handed to the process runner, and the dialogs shown, in order.\<close>

fun runs :: "event list \<Rightarrow> token list list" where
  "runs [] = []"
| "runs (Run args # es) = args # runs es"
| "runs (e # es) = runs es"

fun dialogs :: "event list \<Rightarrow> event list" where
  "dialogs [] = []"
| "dialogs (ShowInfo t m # es) = ShowInfo t m # dialogs es"
| "dialogs (ShowError t m # es) = ShowError t m # dialogs es"
| "dialogs (e # es) = dialogs es"

text \<open>A call started with nothing recorded yet, in the world \<open>w\<close>.\<close>

definition start :: "'w \<Rightarrow> 'w state" where
  "start w = \<lparr>world = w, trace = []\<rparr>"

definition launched :: "'a \<times> 'w state \<Rightarrow> token list list" where
  "launched r = runs (trace (snd r))"

definition shown :: "'a \<times> 'w state \<Rightarrow> event list" where
  "shown r = dialogs (trace (snd r))"

subsection \<open>Concrete inputs\<close>

text \<open>
  The parameter bundles of the two end-to-end scenarios, and an operating system for
  examples. \<open>scripted rs\<close> answers the \<open>n\<close>-th launch with the \<open>n\<close>-th element of
  \<open>rs\<close> (its world is the number of launches so far), and \<open>missing_executable path\<close>
  finds no executable at \<open>path\<close>. \<open>ascii_text\<close> is \<open>decode\<close> for the encoding
  \<open>ascii\<close>: bytes below 128 are their own text, with \<open>\r\n\<close> and \<open>\r\<close> turned into
  \<open>\n\<close>; any other byte is a decoding error (its text is shortened here).
\<close>

definition avif_bundle :: params where
  "avif_bundle =
     [''max_width_avif'' \<mapsto> ''720'', ''frame_rate_avif'' \<mapsto> ''16'',
      ''scale_filter_avif'' \<mapsto> ''lanczos'', ''crf'' \<mapsto> ''30'', ''cpu_used'' \<mapsto> ''8'']"

definition webp_bundle :: params where
  "webp_bundle =
     [''max_width_webp'' \<mapsto> ''720'', ''frame_rate_webp'' \<mapsto> ''15'',
      ''scale_filter_webp'' \<mapsto> ''lanczos'', ''output_quality_webp'' \<mapsto> ''40'',
      ''compression_level'' \<mapsto> ''5'', ''preset'' \<mapsto> ''photo'']"

definition scripted :: "launch_result list \<Rightarrow> nat launcher" where
  "scripted rs n args = (if n < length rs then rs ! n else NotFound, Suc n)"

definition missing_executable :: "string \<Rightarrow> unit launcher" where
  "missing_executable path w args =
     (if take 1 args = [Some path] then NotFound else Exited 0 [] [], w)"

fun is_ascii :: "bytes \<Rightarrow> bool" where
  "is_ascii [] = True"
| "is_ascii (c # cs) = (if digit7 c then False else is_ascii cs)"

fun translate_newlines :: "string \<Rightarrow> string" where
  "translate_newlines [] = []"
| "translate_newlines [c] = [if c = CHR 0x0D then CHR 0x0A else c]"
| "translate_newlines (c # d # cs) =
     (if c = CHR 0x0D \<and> d = CHR 0x0A then CHR 0x0A # translate_newlines cs
      else if c = CHR 0x0D then CHR 0x0A # translate_newlines (d # cs)
      else c # translate_newlines (d # cs))"

definition ascii_text :: decoder where
  "ascii_text b =
     (if is_ascii b then Inr (translate_newlines b)
      else Inl ''ascii codec cannot decode: ordinal not in range(128)'')"

section \<open>The argument lists\<close>

lemma first_second_distinct:
  "first_pass i f p x \<noteq> second_pass i out f p x"
  by (simp add: first_pass_def second_pass_def)

text \<open>
  Claim C1. Whatever the format and the parameter bundle, the argument lists of pass 1
  and pass 2 have the same length and agree in every token but the last five; the last
  five are \<open>-pass 1 -f null -\<close> in pass 1 and \<open>-pass 2 -loop 0\<close> followed by the
  output path in pass 2. The part they share is the executable, the input, the scale
  filter, the frame rate, the codec, the two quality knobs and the fixed extras, in this
  order.
\<close>

theorem passes_differ_only_in_pass_and_sink:
  "length (first_pass i f p x) = length (second_pass i out f p x)
   \<and> take (length (first_pass i f p x) - 5) (first_pass i f p x)
       = take (length (second_pass i out f p x) - 5) (second_pass i out f p x)
   \<and> drop (length (first_pass i f p x) - 5) (first_pass i f p x)
       = [Some ''-pass'', Some ''1'', Some ''-f'', Some ''null'', Some ''-'']
   \<and> drop (length (second_pass i out f p x) - 5) (second_pass i out f p x)
       = [Some ''-pass'', Some ''2'', Some ''-loop'', Some ''0'', Some out]
   \<and> take (length (first_pass i f p x) - 5) (first_pass i f p x)
       = [Some x, Some ''-i'', Some i,
          Some ''-vf'', Some (''scale='' @ py_format (max_width f p) @ '':-2:flags=''
                              @ py_format (scale_filter f p)),
          Some ''-r'', frame_rate f p,
          Some ''-c:v'', Some (c_v (encoder_config f p)),
          Some (param1_key (encoder_config f p)), param1_val (encoder_config f p),
          Some (param2_key (encoder_config f p)), param2_val (encoder_config f p)]
         @ extra_args (encoder_config f p)"
  by (simp add: first_pass_def second_pass_def)

section \<open>The runs of \<open>convert_video\<close>\<close>

text \<open>What \<open>subprocess.run\<close> raises or returns, by the outcome of the launch.\<close>

lemma run_result_returns:
  "run_result decode r = Inr u \<longleftrightarrow>
     (\<exists>out err out_text err_text.
         r = Exited 0 out err \<and> decoded decode out err = Inr (out_text, err_text))"
  by (cases r) (auto simp: run_result_def split: sum.splits)

lemma run_result_called_process_error:
  "run_result decode r = Inl (CalledProcessError rc err_text) \<longleftrightarrow>
     (\<exists>out err out_text.
         r = Exited rc out err \<and> rc \<noteq> 0 \<and> decoded decode out err = Inr (out_text, err_text))"
  by (cases r) (auto simp: run_result_def split: sum.splits)

lemma run_result_file_not_found:
  "run_result decode r = Inl FileNotFoundError \<longleftrightarrow> r = NotFound"
  by (cases r) (auto simp: run_result_def split: sum.splits)

lemma run_result_other_exception:
  "run_result decode r = Inl (OtherException msg) \<longleftrightarrow>
     r = LaunchError msg \<or> (\<exists>rc out err. r = Exited rc out err \<and> decoded decode out err = Inl msg)"
  by (cases r) (auto simp: run_result_def split: sum.splits)

text \<open>
  A call started in the world \<open>w\<close> ends in one of seven ways, decided by what
  \<open>subprocess.run\<close> makes of pass 1 and, when that returned, of pass 2. Each lemma states
  the value returned and everything the call left behind.
\<close>

lemmas run_defs = convert_video_def try_body_def subprocess_run_def emit_def start_def

lemma cv_pass1_failed:
  assumes "launch w (first_pass i f p x) = (r1, w1)"
    and "run_result decode r1 = Inl (CalledProcessError rc err_text)"
  shows "convert_video launch decode pn i out f p x (start w) =
     (Inr False, \<lparr>world = w1, trace =
        [Print (''Starting first pass for '' @ i @ ''...''),
         Run (first_pass i f p x),
         ShowError ''Conversion Error'' (''Error converting '' @ pn i @ '': '' @ err_text)]\<rparr>)"
  using assms by (simp add: run_defs)

lemma cv_pass1_not_found:
  assumes "launch w (first_pass i f p x) = (r1, w1)"
    and "run_result decode r1 = Inl FileNotFoundError"
  shows "convert_video launch decode pn i out f p x (start w) =
     (Inr False, \<lparr>world = w1, trace =
        [Print (''Starting first pass for '' @ i @ ''...''),
         Run (first_pass i f p x),
         ShowError ''Error'' (''Error: ffmpeg not found at '' @ x
                               @ ''. Please ensure the path is correct.'')]\<rparr>)"
  using assms by (simp add: run_defs)

lemma cv_pass1_error:
  assumes "launch w (first_pass i f p x) = (r1, w1)"
    and "run_result decode r1 = Inl (OtherException msg)"
  shows "convert_video launch decode pn i out f p x (start w) =
     (Inr False, \<lparr>world = w1, trace =
        [Print (''Starting first pass for '' @ i @ ''...''),
         Run (first_pass i f p x),
         ShowError ''Unknown Error'' (''An unexpected error occurred: '' @ msg)]\<rparr>)"
  using assms by (simp add: run_defs)

lemma cv_pass2_failed:
  assumes "launch w (first_pass i f p x) = (r1, w1)" and "run_result decode r1 = Inr ()"
    and "launch w1 (second_pass i out f p x) = (r2, w2)"
    and "run_result decode r2 = Inl (CalledProcessError rc err_text)"
  shows "convert_video launch decode pn i out f p x (start w) =
     (Inr False, \<lparr>world = w2, trace =
        [Print (''Starting first pass for '' @ i @ ''...''),
         Run (first_pass i f p x),
         Print (''Starting second pass for '' @ i @ ''...''),
         Run (second_pass i out f p x),
         ShowError ''Conversion Error'' (''Error converting '' @ pn i @ '': '' @ err_text)]\<rparr>)"
  using assms by (simp add: run_defs)

lemma cv_pass2_not_found:
  assumes "launch w (first_pass i f p x) = (r1, w1)" and "run_result decode r1 = Inr ()"
    and "launch w1 (second_pass i out f p x) = (r2, w2)"
    and "run_result decode r2 = Inl FileNotFoundError"
  shows "convert_video launch decode pn i out f p x (start w) =
     (Inr False, \<lparr>world = w2, trace =
        [Print (''Starting first pass for '' @ i @ ''...''),
         Run (first_pass i f p x),
         Print (''Starting second pass for '' @ i @ ''...''),
         Run (second_pass i out f p x),
         ShowError ''Error'' (''Error: ffmpeg not found at '' @ x
                               @ ''. Please ensure the path is correct.'')]\<rparr>)"
  using assms by (simp add: run_defs)

lemma cv_pass2_error:
  assumes "launch w (first_pass i f p x) = (r1, w1)" and "run_result decode r1 = Inr ()"
    and "launch w1 (second_pass i out f p x) = (r2, w2)"
    and "run_result decode r2 = Inl (OtherException msg)"
  shows "convert_video launch decode pn i out f p x (start w) =
     (Inr False, \<lparr>world = w2, trace =
        [Print (''Starting first pass for '' @ i @ ''...''),
         Run (first_pass i f p x),
         Print (''Starting second pass for '' @ i @ ''...''),
         Run (second_pass i out f p x),
         ShowError ''Unknown Error'' (''An unexpected error occurred: '' @ msg)]\<rparr>)"
  using assms by (simp add: run_defs)

lemma cv_success:
  assumes "launch w (first_pass i f p x) = (r1, w1)" and "run_result decode r1 = Inr ()"
    and "launch w1 (second_pass i out f p x) = (r2, w2)" and "run_result decode r2 = Inr ()"
  shows "convert_video launch decode pn i out f p x (start w) =
     (Inr True, \<lparr>world = w2, trace =
        [Print (''Starting first pass for '' @ i @ ''...''),
         Run (first_pass i f p x),
         Print (''Starting second pass for '' @ i @ ''...''),
         Run (second_pass i out f p x),
         ShowInfo ''Success'' (''Successfully converted '' @ pn i @ '' to '' @ pn out)]\<rparr>)"
  using assms by (simp add: run_defs)

text \<open>The seven ways are all there are.\<close>

lemma run_cases [case_names fail1 missing1 error1 fail2 missing2 error2 success]:
  fixes launch :: "'w launcher"
  obtains
    (fail1) r1 w1 rc err_text where
      "launch w (first_pass i f p x) = (r1, w1)"
      "run_result decode r1 = Inl (CalledProcessError rc err_text)"
  | (missing1) r1 w1 where
      "launch w (first_pass i f p x) = (r1, w1)" "run_result decode r1 = Inl FileNotFoundError"
  | (error1) r1 w1 msg where
      "launch w (first_pass i f p x) = (r1, w1)" "run_result decode r1 = Inl (OtherException msg)"
  | (fail2) r1 w1 r2 w2 rc err_text where
      "launch w (first_pass i f p x) = (r1, w1)" "run_result decode r1 = Inr ()"
      "launch w1 (second_pass i out f p x) = (r2, w2)"
      "run_result decode r2 = Inl (CalledProcessError rc err_text)"
  | (missing2) r1 w1 r2 w2 where
      "launch w (first_pass i f p x) = (r1, w1)" "run_result decode r1 = Inr ()"
      "launch w1 (second_pass i out f p x) = (r2, w2)"
      "run_result decode r2 = Inl FileNotFoundError"
  | (error2) r1 w1 r2 w2 msg where
      "launch w (first_pass i f p x) = (r1, w1)" "run_result decode r1 = Inr ()"
      "launch w1 (second_pass i out f p x) = (r2, w2)"
      "run_result decode r2 = Inl (OtherException msg)"
  | (success) r1 w1 r2 w2 where
      "launch w (first_pass i f p x) = (r1, w1)" "run_result decode r1 = Inr ()"
      "launch w1 (second_pass i out f p x) = (r2, w2)" "run_result decode r2 = Inr ()"
proof -
  obtain r1 w1 where l1: "launch w (first_pass i f p x) = (r1, w1)"
    by (cases "launch w (first_pass i f p x)")
  obtain r2 w2 where l2: "launch w1 (second_pass i out f p x) = (r2, w2)"
    by (cases "launch w1 (second_pass i out f p x)")
  show thesis
  proof (cases "run_result decode r1")
    case (Inl e1)
    with l1 show ?thesis
      using fail1 [of r1 w1] missing1 [of r1 w1] error1 [of r1 w1] by (cases e1) simp_all
  next
    case (Inr u1)
    then have ok1: "run_result decode r1 = Inr ()" by simp
    show ?thesis
    proof (cases "run_result decode r2")
      case (Inl e2)
      with l1 ok1 l2 show ?thesis
        using fail2 [of r1 w1 r2 w2] missing2 [of r1 w1 r2 w2] error2 [of r1 w1 r2 w2]
        by (cases e2) simp_all
    next
      case (Inr u2)
      with l1 ok1 l2 show ?thesis using success [of r1 w1 r2 w2] by simp
    qed
  qed
qed

section \<open>Sequencing of the passes\<close>

text \<open>
  Claim C2. When the process of pass 1 exits with a non-zero status, the call returns
  \<open>False\<close> and the process runner has been called for pass 1 only; the one dialog is
  the conversion error with the standard error of pass 1 when the captured output decodes
  as text, and the unknown error with the text of the decoding error when it does not.
  The argument list of pass 2 reaches the process runner only when pass 1 exited with
  status 0, and then after that of pass 1. In every call the runner is called for no
  argument list twice, and for nothing but the two passes.
\<close>

theorem pass2_only_after_pass1_succeeds:
  fixes launch :: "'w launcher"
  shows
  "(\<forall>rc so se w1. launch w (first_pass i f p x) = (Exited rc so se, w1) \<and> rc \<noteq> 0 \<longrightarrow>
       fst (convert_video launch decode pn i out f p x (start w)) = Inr False
     \<and> launched (convert_video launch decode pn i out f p x (start w)) = [first_pass i f p x]
     \<and> (\<forall>out_text err_text. decoded decode so se = Inr (out_text, err_text) \<longrightarrow>
          shown (convert_video launch decode pn i out f p x (start w)) =
            [ShowError ''Conversion Error'' (''Error converting '' @ pn i @ '': '' @ err_text)])
     \<and> (\<forall>msg. decoded decode so se = Inl msg \<longrightarrow>
          shown (convert_video launch decode pn i out f p x (start w)) =
            [ShowError ''Unknown Error'' (''An unexpected error occurred: '' @ msg)]))
   \<and> (second_pass i out f p x
         \<in> set (launched (convert_video launch decode pn i out f p x (start w))) \<longrightarrow>
        (\<exists>so se w1. launch w (first_pass i f p x) = (Exited 0 so se, w1))
      \<and> launched (convert_video launch decode pn i out f p x (start w))
          = [first_pass i f p x, second_pass i out f p x])
   \<and> distinct (launched (convert_video launch decode pn i out f p x (start w)))
   \<and> set (launched (convert_video launch decode pn i out f p x (start w)))
        \<subseteq> {first_pass i f p x, second_pass i out f p x}"
proof (cases rule: run_cases [where launch = launch and w = w and i = i and f = f
                               and p = p and x = x and out = out and decode = decode])
  case fail1
  from fail1(2) cv_pass1_failed [where launch = launch and pn = pn and out = out, OF fail1] fail1(1) show ?thesis
    using first_second_distinct [of i f p x out]
    by (auto simp: run_result_called_process_error launched_def shown_def)
next
  case missing1
  from missing1(2) cv_pass1_not_found [where launch = launch and pn = pn and out = out, OF missing1] missing1(1) show ?thesis
    using first_second_distinct [of i f p x out]
    by (auto simp: run_result_file_not_found launched_def shown_def)
next
  case error1
  from error1(2) cv_pass1_error [where launch = launch and pn = pn and out = out, OF error1] error1(1) show ?thesis
    using first_second_distinct [of i f p x out]
    by (auto simp: run_result_other_exception launched_def shown_def)
next
  case fail2
  from fail2(2) cv_pass2_failed [where launch = launch and pn = pn and out = out, OF fail2] fail2(1) show ?thesis
    using first_second_distinct [of i f p x out]
    by (auto simp: run_result_returns launched_def shown_def)
next
  case missing2
  from missing2(2) cv_pass2_not_found [where launch = launch and pn = pn and out = out, OF missing2] missing2(1) show ?thesis
    using first_second_distinct [of i f p x out]
    by (auto simp: run_result_returns launched_def shown_def)
next
  case error2
  from error2(2) cv_pass2_error [where launch = launch and pn = pn and out = out, OF error2] error2(1) show ?thesis
    using first_second_distinct [of i f p x out]
    by (auto simp: run_result_returns launched_def shown_def)
next
  case success
  from success(2) cv_success [where launch = launch and pn = pn and out = out, OF success] success(1) show ?thesis
    using first_second_distinct [of i f p x out]
    by (auto simp: run_result_returns launched_def shown_def)
qed

theorem pass2_only_after_pass1_succeeds_witness:
  "scripted [Exited 1 [] ''boom''] 0 (first_pass ''clip.mp4'' ''AVIF'' avif_bundle ''ffmpeg'') = (Exited 1 [] ''boom'', 1) \<and> (1::int) \<noteq> 0
   \<and> decoded ascii_text [] ''boom'' = Inr ([], ''boom'')
   \<and> scripted [Exited 1 [] [CHR 0xFF]] 0 (first_pass ''clip.mp4'' ''AVIF'' avif_bundle ''ffmpeg'') = (Exited 1 [] [CHR 0xFF], 1)
   \<and> decoded ascii_text [] [CHR 0xFF] = Inl ''ascii codec cannot decode: ordinal not in range(128)''
   \<and> (second_pass ''clip.mp4'' ''clip.avif'' ''AVIF'' avif_bundle ''ffmpeg'')
       \<in> set (launched (convert_video (scripted [Exited 0 [] [], Exited 0 [] []]) ascii_text (\<lambda>p. p) ''clip.mp4'' ''clip.avif''
        ''AVIF'' avif_bundle ''ffmpeg'' (start 0)))
   \<and> fst (convert_video (scripted [Exited 1 [] ''boom'']) ascii_text (\<lambda>p. p) ''clip.mp4'' ''clip.avif''
        ''AVIF'' avif_bundle ''ffmpeg'' (start 0)) = Inr False
   \<and> launched (convert_video (scripted [Exited 1 [] ''boom'']) ascii_text (\<lambda>p. p) ''clip.mp4'' ''clip.avif''
        ''AVIF'' avif_bundle ''ffmpeg'' (start 0)) = [(first_pass ''clip.mp4'' ''AVIF'' avif_bundle ''ffmpeg'')]
   \<and> shown (convert_video (scripted [Exited 1 [] ''boom'']) ascii_text (\<lambda>p. p) ''clip.mp4'' ''clip.avif''
        ''AVIF'' avif_bundle ''ffmpeg'' (start 0))
       = [ShowError ''Conversion Error'' ''Error converting clip.mp4: boom'']
   \<and> fst (convert_video (scripted [Exited 1 [] [CHR 0xFF]]) ascii_text (\<lambda>p. p) ''clip.mp4'' ''clip.avif''
        ''AVIF'' avif_bundle ''ffmpeg'' (start 0)) = Inr False
   \<and> launched (convert_video (scripted [Exited 1 [] [CHR 0xFF]]) ascii_text (\<lambda>p. p) ''clip.mp4'' ''clip.avif''
        ''AVIF'' avif_bundle ''ffmpeg'' (start 0)) = [(first_pass ''clip.mp4'' ''AVIF'' avif_bundle ''ffmpeg'')]
   \<and> shown (convert_video (scripted [Exited 1 [] [CHR 0xFF]]) ascii_text (\<lambda>p. p) ''clip.mp4'' ''clip.avif''
        ''AVIF'' avif_bundle ''ffmpeg'' (start 0))
       = [ShowError ''Unknown Error'' ''An unexpected error occurred: ascii codec cannot decode: ordinal not in range(128)'']
   \<and> launched (convert_video (scripted [Exited 0 [] [], Exited 0 [] []]) ascii_text (\<lambda>p. p) ''clip.mp4'' ''clip.avif''
        ''AVIF'' avif_bundle ''ffmpeg'' (start 0))
       = [(first_pass ''clip.mp4'' ''AVIF'' avif_bundle ''ffmpeg''),
          (second_pass ''clip.mp4'' ''clip.avif'' ''AVIF'' avif_bundle ''ffmpeg'')]"
proof -
  have l1: "scripted [Exited 1 [] ''boom''] 0 (first_pass ''clip.mp4'' ''AVIF'' avif_bundle ''ffmpeg'') = (Exited 1 [] ''boom'', 1) \<and> (1::int) \<noteq> 0"
    by (simp add: scripted_def)
  have d1: "decoded ascii_text [] ''boom'' = Inr ([], ''boom'')"
    by (simp add: decoded_def ascii_text_def)
  have l2: "scripted [Exited 1 [] [CHR 0xFF]] 0 (first_pass ''clip.mp4'' ''AVIF'' avif_bundle ''ffmpeg'') = (Exited 1 [] [CHR 0xFF], 1)"
    by (simp add: scripted_def)
  have d2: "decoded ascii_text [] [CHR 0xFF] = Inl ''ascii codec cannot decode: ordinal not in range(128)''"
    by (simp add: decoded_def ascii_text_def)
  have l3: "(second_pass ''clip.mp4'' ''clip.avif'' ''AVIF'' avif_bundle ''ffmpeg'')
       \<in> set (launched (convert_video (scripted [Exited 0 [] [], Exited 0 [] []]) ascii_text (\<lambda>p. p) ''clip.mp4'' ''clip.avif''
        ''AVIF'' avif_bundle ''ffmpeg'' (start 0)))"
    by (simp add: launched_def run_defs scripted_def run_result_def decoded_def ascii_text_def)
  from l1 d1 l2 d2 l3
    pass2_only_after_pass1_succeeds [where launch = "scripted [Exited 1 [] ''boom'']" and decode = ascii_text
      and pn = "\<lambda>p. p" and i = "''clip.mp4''" and out = "''clip.avif''" and f = "''AVIF''"
      and p = avif_bundle and x = "''ffmpeg''" and w = 0]
    pass2_only_after_pass1_succeeds [where launch = "scripted [Exited 1 [] [CHR 0xFF]]" and decode = ascii_text
      and pn = "\<lambda>p. p" and i = "''clip.mp4''" and out = "''clip.avif''" and f = "''AVIF''"
      and p = avif_bundle and x = "''ffmpeg''" and w = 0]
    pass2_only_after_pass1_succeeds [where launch = "scripted [Exited 0 [] [], Exited 0 [] []]" and decode = ascii_text
      and pn = "\<lambda>p. p" and i = "''clip.mp4''" and out = "''clip.avif''" and f = "''AVIF''"
      and p = avif_bundle and x = "''ffmpeg''" and w = 0]
  show ?thesis by simp
qed

section \<open>Classification of failures\<close>




text \<open>
  Claim C4, as the code has it. When the launch of a pass raises \<open>FileNotFoundError\<close>,
  at pass 1 or at pass 2 after pass 1 has succeeded, the call returns \<open>False\<close> and shows
  one error dialog, the same in both cases: its title is \<open>Error\<close> and its message names
  the configured path of the encoder. When the launch fails with any other exception
  (an executable that is found but cannot be launched), at pass 1 or at pass 2, the call
  returns \<open>False\<close> and shows the \<open>Unknown Error\<close> dialog with the text of the
  exception.
\<close>

theorem launch_failure_at_either_pass:
  fixes launch :: "'w launcher"
  shows
  "(\<forall>w1. launch w (first_pass i f p x) = (NotFound, w1) \<longrightarrow>
       fst (convert_video launch decode pn i out f p x (start w)) = Inr False
     \<and> shown (convert_video launch decode pn i out f p x (start w)) =
         [ShowError ''Error'' (''Error: ffmpeg not found at '' @ x
                                @ ''. Please ensure the path is correct.'')])
   \<and> (\<forall>so se w1 out_text err_text w2.
         launch w (first_pass i f p x) = (Exited 0 so se, w1)
       \<and> decoded decode so se = Inr (out_text, err_text)
       \<and> launch w1 (second_pass i out f p x) = (NotFound, w2) \<longrightarrow>
       fst (convert_video launch decode pn i out f p x (start w)) = Inr False
     \<and> shown (convert_video launch decode pn i out f p x (start w)) =
         [ShowError ''Error'' (''Error: ffmpeg not found at '' @ x
                                @ ''. Please ensure the path is correct.'')])
   \<and> (\<forall>msg w1. launch w (first_pass i f p x) = (LaunchError msg, w1) \<longrightarrow>
       fst (convert_video launch decode pn i out f p x (start w)) = Inr False
     \<and> shown (convert_video launch decode pn i out f p x (start w)) =
         [ShowError ''Unknown Error'' (''An unexpected error occurred: '' @ msg)])
   \<and> (\<forall>so se w1 out_text err_text msg w2.
         launch w (first_pass i f p x) = (Exited 0 so se, w1)
       \<and> decoded decode so se = Inr (out_text, err_text)
       \<and> launch w1 (second_pass i out f p x) = (LaunchError msg, w2) \<longrightarrow>
       fst (convert_video launch decode pn i out f p x (start w)) = Inr False
     \<and> shown (convert_video launch decode pn i out f p x (start w)) =
         [ShowError ''Unknown Error'' (''An unexpected error occurred: '' @ msg)])"
proof (cases rule: run_cases [where launch = launch and w = w and i = i and f = f
                               and p = p and x = x and out = out and decode = decode])
  case fail1
  from fail1(2) fail1(1) show ?thesis by (auto simp: run_result_called_process_error)
next
  case missing1
  from missing1(2)
    cv_pass1_not_found [where launch = launch and pn = pn and out = out, OF missing1] missing1(1)
  show ?thesis by (auto simp: run_result_file_not_found shown_def)
next
  case error1
  from error1(2) cv_pass1_error [where launch = launch and pn = pn and out = out, OF error1]
    error1(1)
  show ?thesis by (auto simp: run_result_other_exception shown_def)
next
  case fail2
  from fail2(2,4) fail2(1,3) show ?thesis
    by (auto simp: run_result_returns run_result_called_process_error)
next
  case missing2
  from missing2(2,4)
    cv_pass2_not_found [where launch = launch and pn = pn and out = out, OF missing2]
    missing2(1,3)
  show ?thesis by (auto simp: run_result_returns run_result_file_not_found shown_def)
next
  case error2
  from error2(2,4) cv_pass2_error [where launch = launch and pn = pn and out = out, OF error2]
    error2(1,3)
  show ?thesis by (auto simp: run_result_returns run_result_other_exception shown_def)
next
  case success
  from success(2,4) success(1,3) show ?thesis by (auto simp: run_result_returns)
qed

theorem launch_failure_at_either_pass_witness:
  "scripted [NotFound] 0 (first_pass ''clip.mp4'' ''AVIF'' avif_bundle ''ffmpeg'') = (NotFound, 1)
   \<and> scripted [Exited 0 [] [], NotFound] 0 (first_pass ''clip.mp4'' ''AVIF'' avif_bundle ''ffmpeg'') = (Exited 0 [] [], 1)
     \<and> scripted [Exited 0 [] [], NotFound] 1 (second_pass ''clip.mp4'' ''clip.avif'' ''AVIF'' avif_bundle ''ffmpeg'') = (NotFound, 2)
   \<and> scripted [LaunchError ''[Errno 13] Permission denied''] 0 (first_pass ''clip.mp4'' ''AVIF'' avif_bundle ''ffmpeg'') = (LaunchError ''[Errno 13] Permission denied'', 1)
   \<and> scripted [Exited 0 [] [], LaunchError ''[Errno 13] Permission denied''] 0 (first_pass ''clip.mp4'' ''AVIF'' avif_bundle ''ffmpeg'') = (Exited 0 [] [], 1)
     \<and> scripted [Exited 0 [] [], LaunchError ''[Errno 13] Permission denied''] 1 (second_pass ''clip.mp4'' ''clip.avif'' ''AVIF'' avif_bundle ''ffmpeg'') = (LaunchError ''[Errno 13] Permission denied'', 2)
   \<and> decoded ascii_text [] [] = Inr ([], [])
   \<and> fst (convert_video (scripted [NotFound]) ascii_text (\<lambda>p. p) ''clip.mp4'' ''clip.avif''
        ''AVIF'' avif_bundle ''ffmpeg'' (start 0)) = Inr False
   \<and> shown (convert_video (scripted [NotFound]) ascii_text (\<lambda>p. p) ''clip.mp4'' ''clip.avif''
        ''AVIF'' avif_bundle ''ffmpeg'' (start 0))
       = [ShowError ''Error'' ''Error: ffmpeg not found at ffmpeg. Please ensure the path is correct.'']
   \<and> fst (convert_video (scripted [Exited 0 [] [], NotFound]) ascii_text (\<lambda>p. p) ''clip.mp4'' ''clip.avif''
        ''AVIF'' avif_bundle ''ffmpeg'' (start 0)) = Inr False
   \<and> shown (convert_video (scripted [Exited 0 [] [], NotFound]) ascii_text (\<lambda>p. p) ''clip.mp4'' ''clip.avif''
        ''AVIF'' avif_bundle ''ffmpeg'' (start 0))
       = [ShowError ''Error'' ''Error: ffmpeg not found at ffmpeg. Please ensure the path is correct.'']
   \<and> fst (convert_video (scripted [LaunchError ''[Errno 13] Permission denied'']) ascii_text (\<lambda>p. p) ''clip.mp4'' ''clip.avif''
        ''AVIF'' avif_bundle ''ffmpeg'' (start 0)) = Inr False
   \<and> shown (convert_video (scripted [LaunchError ''[Errno 13] Permission denied'']) ascii_text (\<lambda>p. p) ''clip.mp4'' ''clip.avif''
        ''AVIF'' avif_bundle ''ffmpeg'' (start 0))
       = [ShowError ''Unknown Error'' ''An unexpected error occurred: [Errno 13] Permission denied'']
   \<and> fst (convert_video (scripted [Exited 0 [] [], LaunchError ''[Errno 13] Permission denied'']) ascii_text (\<lambda>p. p) ''clip.mp4'' ''clip.avif''
        ''AVIF'' avif_bundle ''ffmpeg'' (start 0)) = Inr False
   \<and> shown (convert_video (scripted [Exited 0 [] [], LaunchError ''[Errno 13] Permission denied'']) ascii_text (\<lambda>p. p) ''clip.mp4'' ''clip.avif''
        ''AVIF'' avif_bundle ''ffmpeg'' (start 0))
       = [ShowError ''Unknown Error'' ''An unexpected error occurred: [Errno 13] Permission denied'']"
proof -
  have l1: "scripted [NotFound] 0 (first_pass ''clip.mp4'' ''AVIF'' avif_bundle ''ffmpeg'') = (NotFound, 1)"
    by (simp add: scripted_def)
  have l2: "scripted [Exited 0 [] [], NotFound] 0 (first_pass ''clip.mp4'' ''AVIF'' avif_bundle ''ffmpeg'') = (Exited 0 [] [], 1)
     \<and> scripted [Exited 0 [] [], NotFound] 1 (second_pass ''clip.mp4'' ''clip.avif'' ''AVIF'' avif_bundle ''ffmpeg'') = (NotFound, 2)"
    by (simp add: scripted_def)
  have l3: "scripted [LaunchError ''[Errno 13] Permission denied''] 0 (first_pass ''clip.mp4'' ''AVIF'' avif_bundle ''ffmpeg'') = (LaunchError ''[Errno 13] Permission denied'', 1)"
    by (simp add: scripted_def)
  have l4: "scripted [Exited 0 [] [], LaunchError ''[Errno 13] Permission denied''] 0 (first_pass ''clip.mp4'' ''AVIF'' avif_bundle ''ffmpeg'') = (Exited 0 [] [], 1)
     \<and> scripted [Exited 0 [] [], LaunchError ''[Errno 13] Permission denied''] 1 (second_pass ''clip.mp4'' ''clip.avif'' ''AVIF'' avif_bundle ''ffmpeg'') = (LaunchError ''[Errno 13] Permission denied'', 2)"
    by (simp add: scripted_def)
  have d: "decoded ascii_text [] [] = Inr ([], [])"
    by (simp add: decoded_def ascii_text_def)
  from l1 l2 l3 l4 d
    launch_failure_at_either_pass [where launch = "scripted [NotFound]" and decode = ascii_text
      and pn = "\<lambda>p. p" and i = "''clip.mp4''" and out = "''clip.avif''" and f = "''AVIF''"
      and p = avif_bundle and x = "''ffmpeg''" and w = 0]
    launch_failure_at_either_pass [where launch = "scripted [Exited 0 [] [], NotFound]" and decode = ascii_text
      and pn = "\<lambda>p. p" and i = "''clip.mp4''" and out = "''clip.avif''" and f = "''AVIF''"
      and p = avif_bundle and x = "''ffmpeg''" and w = 0]
    launch_failure_at_either_pass [where launch = "scripted [LaunchError ''[Errno 13] Permission denied'']" and decode = ascii_text
      and pn = "\<lambda>p. p" and i = "''clip.mp4''" and out = "''clip.avif''" and f = "''AVIF''"
      and p = avif_bundle and x = "''ffmpeg''" and w = 0]
    launch_failure_at_either_pass [where launch = "scripted [Exited 0 [] [], LaunchError ''[Errno 13] Permission denied'']" and decode = ascii_text
      and pn = "\<lambda>p. p" and i = "''clip.mp4''" and out = "''clip.avif''" and f = "''AVIF''"
      and p = avif_bundle and x = "''ffmpeg''" and w = 0]
  show ?thesis by simp
qed

text \<open>
  Claim C4, as the specification states it, fails for an encoder that cannot be launched:
  when the launch of pass 1 raises \<open>PermissionError\<close> the dialog is the unknown error,
  not the one for an encoder that was not found.
\<close>

theorem unlaunchable_encoder_is_unknown_error_counterexample:
  "fst (scripted [LaunchError ''[Errno 13] Permission denied''] 0
          (first_pass ''clip.mp4'' ''AVIF'' avif_bundle ''ffmpeg''))
       = LaunchError ''[Errno 13] Permission denied''
   \<and> fst (convert_video (scripted [LaunchError ''[Errno 13] Permission denied'']) ascii_text (\<lambda>p. p) ''clip.mp4'' ''clip.avif''
        ''AVIF'' avif_bundle ''ffmpeg'' (start 0)) = Inr False
   \<and> shown (convert_video (scripted [LaunchError ''[Errno 13] Permission denied'']) ascii_text (\<lambda>p. p) ''clip.mp4'' ''clip.avif''
        ''AVIF'' avif_bundle ''ffmpeg'' (start 0))
       = [ShowError ''Unknown Error'' ''An unexpected error occurred: [Errno 13] Permission denied'']"
  by (simp add: run_defs run_result_def decoded_def ascii_text_def scripted_def launched_def shown_def)

section \<open>Success and failure\<close>




text \<open>
  Claim C6, as the code has it. \<open>convert_video\<close> does not look at the encoder path
  before it starts. When that path does not resolve to an executable, so that no launch
  with it runs a process, the process runner is still called once, for pass 1; pass 2 is
  not attempted and the call returns \<open>False\<close>. The dialog is the \<open>ffmpeg not found\<close>
  one when that launch raises \<open>FileNotFoundError\<close>, and the \<open>Unknown Error\<close> one,
  with the text of the exception, when it raises anything else.
\<close>

theorem unresolvable_encoder_stops_at_first_launch:
  fixes launch :: "'w launcher"
  assumes "\<And>w' args. take 1 args = [Some x] \<Longrightarrow>
             fst (launch w' args) = NotFound \<or> (\<exists>msg. fst (launch w' args) = LaunchError msg)"
  shows
  "fst (convert_video launch decode pn i out f p x (start w)) = Inr False
   \<and> launched (convert_video launch decode pn i out f p x (start w)) = [first_pass i f p x]
   \<and> (fst (launch w (first_pass i f p x)) = NotFound \<longrightarrow>
        shown (convert_video launch decode pn i out f p x (start w)) =
          [ShowError ''Error'' (''Error: ffmpeg not found at '' @ x
                                 @ ''. Please ensure the path is correct.'')])
   \<and> (\<forall>msg. fst (launch w (first_pass i f p x)) = LaunchError msg \<longrightarrow>
        shown (convert_video launch decode pn i out f p x (start w)) =
          [ShowError ''Unknown Error'' (''An unexpected error occurred: '' @ msg)])"
proof -
  obtain r1 w1 where l1: "launch w (first_pass i f p x) = (r1, w1)"
    by (cases "launch w (first_pass i f p x)")
  have "take 1 (first_pass i f p x) = [Some x]"
    by (simp add: first_pass_def)
  from assms [OF this, of w] l1 have "r1 = NotFound \<or> (\<exists>msg. r1 = LaunchError msg)"
    by simp
  then show ?thesis
  proof
    assume "r1 = NotFound"
    with l1 show ?thesis
      using cv_pass1_not_found [where launch = launch and pn = pn and out = out and decode = decode,
              OF l1]
      by (simp add: run_result_file_not_found launched_def shown_def)
  next
    assume "\<exists>msg. r1 = LaunchError msg"
    then obtain msg where "r1 = LaunchError msg" ..
    with l1 show ?thesis
      using cv_pass1_error [where launch = launch and pn = pn and out = out and decode = decode
              and msg = msg, OF l1]
      by (simp add: run_result_other_exception launched_def shown_def)
  qed
qed

theorem unresolvable_encoder_stops_at_first_launch_witness:
  "fst (convert_video (missing_executable ''/no/ffmpeg'') ascii_text (\<lambda>p. p) ''clip.mp4''
          ''clip.avif'' ''AVIF'' avif_bundle ''/no/ffmpeg'' (start ())) = Inr False
   \<and> launched (convert_video (missing_executable ''/no/ffmpeg'') ascii_text (\<lambda>p. p) ''clip.mp4''
          ''clip.avif'' ''AVIF'' avif_bundle ''/no/ffmpeg'' (start ()))
       = [first_pass ''clip.mp4'' ''AVIF'' avif_bundle ''/no/ffmpeg'']
   \<and> shown (convert_video (missing_executable ''/no/ffmpeg'') ascii_text (\<lambda>p. p) ''clip.mp4''
          ''clip.avif'' ''AVIF'' avif_bundle ''/no/ffmpeg'' (start ()))
       = [ShowError ''Error''
            ''Error: ffmpeg not found at /no/ffmpeg. Please ensure the path is correct.'']
   \<and> fst (convert_video (scripted [LaunchError ''[Errno 13] Permission denied'']) ascii_text
          (\<lambda>p. p) ''clip.mp4'' ''clip.avif'' ''AVIF'' avif_bundle ''notes.txt'' (start 0))
       = Inr False
   \<and> launched (convert_video (scripted [LaunchError ''[Errno 13] Permission denied'']) ascii_text
          (\<lambda>p. p) ''clip.mp4'' ''clip.avif'' ''AVIF'' avif_bundle ''notes.txt'' (start 0))
       = [first_pass ''clip.mp4'' ''AVIF'' avif_bundle ''notes.txt'']
   \<and> shown (convert_video (scripted [LaunchError ''[Errno 13] Permission denied'']) ascii_text
          (\<lambda>p. p) ''clip.mp4'' ''clip.avif'' ''AVIF'' avif_bundle ''notes.txt'' (start 0))
       = [ShowError ''Unknown Error''
            ''An unexpected error occurred: [Errno 13] Permission denied'']"
proof -
  have h1: "\<And>w' args. take 1 args = [Some ''/no/ffmpeg''] \<Longrightarrow>
       fst (missing_executable ''/no/ffmpeg'' w' args) = NotFound
       \<or> (\<exists>msg. fst (missing_executable ''/no/ffmpeg'' w' args) = LaunchError msg)"
    by (simp add: missing_executable_def)
  have h2: "\<And>w' args. take 1 args = [Some ''notes.txt''] \<Longrightarrow>
       fst (scripted [LaunchError ''[Errno 13] Permission denied''] w' args) = NotFound
       \<or> (\<exists>msg. fst (scripted [LaunchError ''[Errno 13] Permission denied''] w' args)
                   = LaunchError msg)"
    by (auto simp: scripted_def)
  have l1: "fst (missing_executable ''/no/ffmpeg'' ()
                  (first_pass ''clip.mp4'' ''AVIF'' avif_bundle ''/no/ffmpeg'')) = NotFound"
    by (simp add: missing_executable_def first_pass_def)
  have l2: "fst (scripted [LaunchError ''[Errno 13] Permission denied''] 0
                  (first_pass ''clip.mp4'' ''AVIF'' avif_bundle ''notes.txt''))
              = LaunchError ''[Errno 13] Permission denied''"
    by (simp add: scripted_def)
  from l1 l2
    unresolvable_encoder_stops_at_first_launch [where launch = "missing_executable ''/no/ffmpeg''"
      and x = "''/no/ffmpeg''" and decode = ascii_text and pn = "\<lambda>p. p" and i = "''clip.mp4''"
      and out = "''clip.avif''" and f = "''AVIF''" and p = avif_bundle and w = "()", OF h1]
    unresolvable_encoder_stops_at_first_launch
      [where launch = "scripted [LaunchError ''[Errno 13] Permission denied'']"
      and x = "''notes.txt''" and decode = ascii_text and pn = "\<lambda>p. p" and i = "''clip.mp4''"
      and out = "''clip.avif''" and f = "''AVIF''" and p = avif_bundle and w = 0, OF h2]
  show ?thesis by simp
qed

text \<open>
  Claim C6, as the specification states it, fails: with no executable at the encoder path
  the process runner is still called, and it is that call which reports the missing
  executable.
\<close>

theorem unresolvable_encoder_still_launches_counterexample:
  "fst (missing_executable ''/no/ffmpeg'' ()
          (first_pass ''clip.mp4'' ''AVIF'' avif_bundle ''/no/ffmpeg'')) = NotFound
   \<and> launched (convert_video (missing_executable ''/no/ffmpeg'') ascii_text (\<lambda>p. p) ''clip.mp4''
            ''clip.avif'' ''AVIF'' avif_bundle ''/no/ffmpeg'' (start ())) \<noteq> []"
  by (simp add: run_defs run_result_def missing_executable_def launched_def first_pass_def)

section \<open>The end-to-end scenarios\<close>

lemma first_pass_avif_scenario:
  assumes "p ''max_width_avif'' = Some ''720''" and "p ''frame_rate_avif'' = Some ''16''"
    and "p ''scale_filter_avif'' = Some ''lanczos''" and "p ''crf'' = Some ''30''"
    and "p ''cpu_used'' = Some ''8''"
  shows "first_pass i ''AVIF'' p x =
    [Some x, Some ''-i'', Some i, Some ''-vf'', Some ''scale=720:-2:flags=lanczos'',
     Some ''-r'', Some ''16'', Some ''-c:v'', Some ''libaom-av1'', Some ''-crf'', Some ''30'',
     Some ''-cpu-used'', Some ''8'', Some ''-b:v'', Some ''0'', Some ''-pix_fmt'', Some ''yuv420p'',
     Some ''-pass'', Some ''1'', Some ''-f'', Some ''null'', Some ''-'']"
  using assms
  by (simp add: first_pass_def encoder_config_def max_width_def scale_filter_def frame_rate_def)

lemma second_pass_avif_scenario:
  assumes "p ''max_width_avif'' = Some ''720''" and "p ''frame_rate_avif'' = Some ''16''"
    and "p ''scale_filter_avif'' = Some ''lanczos''" and "p ''crf'' = Some ''30''"
    and "p ''cpu_used'' = Some ''8''"
  shows "second_pass i out ''AVIF'' p x =
    [Some x, Some ''-i'', Some i, Some ''-vf'', Some ''scale=720:-2:flags=lanczos'',
     Some ''-r'', Some ''16'', Some ''-c:v'', Some ''libaom-av1'', Some ''-crf'', Some ''30'',
     Some ''-cpu-used'', Some ''8'', Some ''-b:v'', Some ''0'', Some ''-pix_fmt'', Some ''yuv420p'',
     Some ''-pass'', Some ''2'', Some ''-loop'', Some ''0'', Some out]"
  using assms
  by (simp add: second_pass_def encoder_config_def max_width_def scale_filter_def frame_rate_def)

text \<open>
  Claim C7. For a bundle with \<open>max_width_avif = 720\<close>, \<open>frame_rate_avif = 16\<close>,
  \<open>scale_filter_avif = lanczos\<close>, \<open>crf = 30\<close> and \<open>cpu_used = 8\<close> and the format
  \<open>AVIF\<close>, each of the token runs \<open>scale=720:-2:flags=lanczos\<close>, \<open>-r 16\<close>,
  \<open>-c:v libaom-av1\<close>, \<open>-crf 30\<close>, \<open>-cpu-used 8\<close> and \<open>-b:v 0 -pix_fmt yuv420p\<close>
  occurs, contiguous and in this order of tokens, in the argument list of pass 1 and in
  that of pass 2; the list of pass 1 ends with \<open>-pass 1 -f null -\<close> and the list of pass 2
  with \<open>-pass 2 -loop 0\<close> and the output path.
\<close>

theorem avif_scenario_tokens:
  assumes "p ''max_width_avif'' = Some ''720''" and "p ''frame_rate_avif'' = Some ''16''"
    and "p ''scale_filter_avif'' = Some ''lanczos''" and "p ''crf'' = Some ''30''"
    and "p ''cpu_used'' = Some ''8''"
  shows
  "(\<forall>g \<in> set [[Some ''scale=720:-2:flags=lanczos''],
                [Some ''-r'', Some ''16''],
                [Some ''-c:v'', Some ''libaom-av1''],
                [Some ''-crf'', Some ''30''],
                [Some ''-cpu-used'', Some ''8''],
                [Some ''-b:v'', Some ''0'', Some ''-pix_fmt'', Some ''yuv420p'']].
       sublist g (first_pass i ''AVIF'' p x) \<and> sublist g (second_pass i out ''AVIF'' p x))
   \<and> suffix [Some ''-pass'', Some ''1'', Some ''-f'', Some ''null'', Some ''-'']
        (first_pass i ''AVIF'' p x)
   \<and> suffix [Some ''-pass'', Some ''2'', Some ''-loop'', Some ''0'', Some out]
        (second_pass i out ''AVIF'' p x)"
  unfolding first_pass_avif_scenario [OF assms] second_pass_avif_scenario [OF assms]
  by (simp add: sublist_Cons_right suffix_Cons)

theorem avif_scenario_tokens_witness:
  "(avif_bundle ''max_width_avif'' = Some ''720'' \<and> avif_bundle ''frame_rate_avif'' = Some ''16''
    \<and> avif_bundle ''scale_filter_avif'' = Some ''lanczos'' \<and> avif_bundle ''crf'' = Some ''30''
    \<and> avif_bundle ''cpu_used'' = Some ''8'')
   \<and> sublist [Some ''-b:v'', Some ''0'', Some ''-pix_fmt'', Some ''yuv420p'']
        (first_pass ''clip.mp4'' ''AVIF'' avif_bundle ''ffmpeg'')
   \<and> sublist [Some ''-crf'', Some ''30'']
        (second_pass ''clip.mp4'' ''clip.avif'' ''AVIF'' avif_bundle ''ffmpeg'')
   \<and> suffix [Some ''-pass'', Some ''1'', Some ''-f'', Some ''null'', Some ''-'']
        (first_pass ''clip.mp4'' ''AVIF'' avif_bundle ''ffmpeg'')
   \<and> suffix [Some ''-pass'', Some ''2'', Some ''-loop'', Some ''0'', Some ''clip.avif'']
        (second_pass ''clip.mp4'' ''clip.avif'' ''AVIF'' avif_bundle ''ffmpeg'')"
proof -
  have h1: "avif_bundle ''max_width_avif'' = Some ''720''"
    and h2: "avif_bundle ''frame_rate_avif'' = Some ''16''"
    and h3: "avif_bundle ''scale_filter_avif'' = Some ''lanczos''"
    and h4: "avif_bundle ''crf'' = Some ''30''"
    and h5: "avif_bundle ''cpu_used'' = Some ''8''"
    by (simp_all add: avif_bundle_def)
  from avif_scenario_tokens [OF h1 h2 h3 h4 h5, of "''clip.mp4''" "''ffmpeg''" "''clip.avif''"]
    h1 h2 h3 h4 h5
  show ?thesis by simp
qed

text \<open>
  Claim C8. For the format \<open>WebP\<close> and every bundle, the configuration has the codec
  \<open>libwebp\<close>, the first knob \<open>-quality\<close> with the bundle's \<open>output_quality_webp\<close>,
  the second knob \<open>-compression_level\<close> with the bundle's \<open>compression_level\<close>, and
  the extras \<open>-preset\<close> and the bundle's \<open>preset\<close>; both argument lists hold codec,
  knobs and extras as one contiguous run in that order. For a bundle with preset
  \<open>photo\<close>, quality \<open>40\<close> and compression level \<open>5\<close> that run is
  \<open>-c:v libwebp -quality 40 -compression_level 5 -preset photo\<close>.
\<close>

theorem webp_configuration:
  "encoder_config ''WebP'' p =
     \<lparr> c_v = ''libwebp'',
       param1_key = ''-quality'', param1_val = p ''output_quality_webp'',
       param2_key = ''-compression_level'', param2_val = p ''compression_level'',
       extra_args = [Some ''-preset'', p ''preset''] \<rparr>
   \<and> sublist [Some ''-c:v'', Some ''libwebp'', Some ''-quality'', p ''output_quality_webp'',
               Some ''-compression_level'', p ''compression_level'', Some ''-preset'', p ''preset'']
        (first_pass i ''WebP'' p x)
   \<and> sublist [Some ''-c:v'', Some ''libwebp'', Some ''-quality'', p ''output_quality_webp'',
               Some ''-compression_level'', p ''compression_level'', Some ''-preset'', p ''preset'']
        (second_pass i out ''WebP'' p x)
   \<and> (p ''preset'' = Some ''photo'' \<and> p ''output_quality_webp'' = Some ''40''
       \<and> p ''compression_level'' = Some ''5'' \<longrightarrow>
         sublist [Some ''-c:v'', Some ''libwebp'', Some ''-quality'', Some ''40'',
                  Some ''-compression_level'', Some ''5'', Some ''-preset'', Some ''photo'']
           (first_pass i ''WebP'' p x)
       \<and> sublist [Some ''-c:v'', Some ''libwebp'', Some ''-quality'', Some ''40'',
                  Some ''-compression_level'', Some ''5'', Some ''-preset'', Some ''photo'']
           (second_pass i out ''WebP'' p x))"
proof -
  have cfg: "encoder_config ''WebP'' p =
     \<lparr> c_v = ''libwebp'',
       param1_key = ''-quality'', param1_val = p ''output_quality_webp'',
       param2_key = ''-compression_level'', param2_val = p ''compression_level'',
       extra_args = [Some ''-preset'', p ''preset''] \<rparr>"
    by (simp add: encoder_config_def)
  have one: "sublist [Some ''-c:v'', Some ''libwebp'', Some ''-quality'', p ''output_quality_webp'',
               Some ''-compression_level'', p ''compression_level'', Some ''-preset'', p ''preset'']
        (first_pass i ''WebP'' p x)"
    unfolding first_pass_def cfg by (simp add: sublist_Cons_right)
  have two: "sublist [Some ''-c:v'', Some ''libwebp'', Some ''-quality'', p ''output_quality_webp'',
               Some ''-compression_level'', p ''compression_level'', Some ''-preset'', p ''preset'']
        (second_pass i out ''WebP'' p x)"
    unfolding second_pass_def cfg by (simp add: sublist_Cons_right)
  from one two have
    "p ''preset'' = Some ''photo'' \<and> p ''output_quality_webp'' = Some ''40''
       \<and> p ''compression_level'' = Some ''5'' \<longrightarrow>
         sublist [Some ''-c:v'', Some ''libwebp'', Some ''-quality'', Some ''40'',
                  Some ''-compression_level'', Some ''5'', Some ''-preset'', Some ''photo'']
           (first_pass i ''WebP'' p x)
       \<and> sublist [Some ''-c:v'', Some ''libwebp'', Some ''-quality'', Some ''40'',
                  Some ''-compression_level'', Some ''5'', Some ''-preset'', Some ''photo'']
           (second_pass i out ''WebP'' p x)"
    by auto
  with cfg one two show ?thesis by blast
qed

theorem webp_configuration_witness:
  "(webp_bundle ''preset'' = Some ''photo'' \<and> webp_bundle ''output_quality_webp'' = Some ''40''
       \<and> webp_bundle ''compression_level'' = Some ''5'')
   \<and> sublist [Some ''-c:v'', Some ''libwebp'', Some ''-quality'', Some ''40'',
              Some ''-compression_level'', Some ''5'', Some ''-preset'', Some ''photo'']
        (first_pass ''clip.mp4'' ''WebP'' webp_bundle ''ffmpeg'')
   \<and> sublist [Some ''-c:v'', Some ''libwebp'', Some ''-quality'', Some ''40'',
              Some ''-compression_level'', Some ''5'', Some ''-preset'', Some ''photo'']
        (second_pass ''clip.mp4'' ''clip.webp'' ''WebP'' webp_bundle ''ffmpeg'')"
proof -
  have h: "webp_bundle ''preset'' = Some ''photo'' \<and> webp_bundle ''output_quality_webp'' = Some ''40''
       \<and> webp_bundle ''compression_level'' = Some ''5''"
    by (simp add: webp_bundle_def)
  from webp_configuration [of webp_bundle "''clip.mp4''" "''ffmpeg''" "''clip.webp''"] h
  show ?thesis by blast
qed

section \<open>Formats other than \<open>AVIF\<close>\<close>

text \<open>
  Claim C9. A format that is not exactly the string \<open>AVIF\<close> (the empty string,
  \<open>avif\<close>, anything else) is treated as \<open>WebP\<close>: the configuration is the
  \<open>libwebp\<close> one, the scale filter, the maximal width and the frame rate are read from the
  \<open>_webp\<close> entries of the bundle, both argument lists are those of \<open>WebP\<close>, and the
  whole call does what it does for \<open>WebP\<close>; no format is rejected.
\<close>

theorem other_formats_take_webp_branch:
  assumes "format_type \<noteq> ''AVIF''"
  shows
  "c_v (encoder_config format_type p) = ''libwebp''
   \<and> encoder_config format_type p = encoder_config ''WebP'' p
   \<and> scale_filter format_type p = p ''scale_filter_webp''
   \<and> max_width format_type p = p ''max_width_webp''
   \<and> frame_rate format_type p = p ''frame_rate_webp''
   \<and> first_pass i format_type p x = first_pass i ''WebP'' p x
   \<and> second_pass i out format_type p x = second_pass i out ''WebP'' p x
   \<and> convert_video launch decode pn i out format_type p x s
       = convert_video launch decode pn i out ''WebP'' p x s"
  using assms
  by (simp add: convert_video_def first_pass_def second_pass_def encoder_config_def
      scale_filter_def max_width_def frame_rate_def)

theorem other_formats_take_webp_branch_witness:
  "''avif'' \<noteq> ''AVIF''
   \<and> c_v (encoder_config ''avif'' webp_bundle) = ''libwebp''
   \<and> scale_filter ''avif'' webp_bundle = Some ''lanczos''
   \<and> max_width ''avif'' webp_bundle = Some ''720''
   \<and> frame_rate ''avif'' webp_bundle = Some ''15''
   \<and> first_pass ''clip.mp4'' ''avif'' webp_bundle ''ffmpeg''
       = first_pass ''clip.mp4'' ''WebP'' webp_bundle ''ffmpeg''
   \<and> second_pass ''clip.mp4'' ''clip.webp'' ''avif'' webp_bundle ''ffmpeg''
       = second_pass ''clip.mp4'' ''clip.webp'' ''WebP'' webp_bundle ''ffmpeg''
   \<and> convert_video (scripted [Exited 0 [] [], Exited 0 [] []]) ascii_text (\<lambda>p. p) ''clip.mp4''
        ''clip.webp'' ''avif'' webp_bundle ''ffmpeg'' (start 0)
       = convert_video (scripted [Exited 0 [] [], Exited 0 [] []]) ascii_text (\<lambda>p. p) ''clip.mp4''
        ''clip.webp'' ''WebP'' webp_bundle ''ffmpeg'' (start 0)"
proof -
  have h: "''avif'' \<noteq> ''AVIF''" by simp
  have b: "webp_bundle ''scale_filter_webp'' = Some ''lanczos''"
    "webp_bundle ''max_width_webp'' = Some ''720''"
    "webp_bundle ''frame_rate_webp'' = Some ''15''"
    by (simp_all add: webp_bundle_def)
  from other_formats_take_webp_branch [OF h, of webp_bundle "''clip.mp4''" "''ffmpeg''"
         "''clip.webp''" "scripted [Exited 0 [] [], Exited 0 [] []]" ascii_text "\<lambda>p. p"
         "start 0"] h
  show ?thesis unfolding b by blast
qed

section \<open>No exception leaves the call\<close>

text \<open>
  Claim C10. From every state and for every input the call ends with a value returned,
  \<open>True\<close> or \<open>False\<close>, never with an exception; and whenever the body of the
  \<open>try\<close> ends with an exception (a non-zero exit status, an executable that was not
  found, or any other exception of the process runner, a decoding error among them), the
  value returned is \<open>False\<close>.
\<close>

theorem convert_video_never_raises:
  "(\<exists>b. fst (convert_video launch decode pn i out f p x s) = Inr b)
   \<and> (\<forall>e. fst (try_body launch decode pn i out (first_pass i f p x) (second_pass i out f p x) s)
          = Inl e
          \<longrightarrow> fst (convert_video launch decode pn i out f p x s) = Inr False)"
  by (auto simp: convert_video_def split: prod.splits sum.splits py_exception.splits)

theorem convert_video_never_raises_witness:
  "fst (try_body (scripted [LaunchError ''denied'']) ascii_text (\<lambda>p. p) ''clip.mp4'' ''clip.avif''
          (first_pass ''clip.mp4'' ''AVIF'' avif_bundle ''ffmpeg'')
          (second_pass ''clip.mp4'' ''clip.avif'' ''AVIF'' avif_bundle ''ffmpeg'') (start 0))
     = Inl (OtherException ''denied'')
   \<and> fst (convert_video (scripted [LaunchError ''denied'']) ascii_text (\<lambda>p. p) ''clip.mp4'' ''clip.avif''
            ''AVIF'' avif_bundle ''ffmpeg'' (start 0)) = Inr False"
proof -
  have h: "fst (try_body (scripted [LaunchError ''denied'']) ascii_text (\<lambda>p. p) ''clip.mp4'' ''clip.avif''
          (first_pass ''clip.mp4'' ''AVIF'' avif_bundle ''ffmpeg'')
          (second_pass ''clip.mp4'' ''clip.avif'' ''AVIF'' avif_bundle ''ffmpeg'') (start 0))
     = Inl (OtherException ''denied'')"
    by (simp add: try_body_def subprocess_run_def run_result_def emit_def start_def scripted_def)
  from convert_video_never_raises [of "scripted [LaunchError ''denied'']" ascii_text "\<lambda>p. p" "''clip.mp4''"
         "''clip.avif''" "''AVIF''" avif_bundle "''ffmpeg''" "start 0"] h
  show ?thesis by blast
qed

end
